theory Spec2Isabelle
  imports Complex_Main "HOL-Library.Stream" "HOL-Library.Monad_Syntax"
begin

section \<open>The transactions routes of the ledger service\<close>

text \<open>
  A shallow embedding of \<^verbatim>\<open>src/routes/transactions.ts\<close>. The file registers six
  Fastify routes on the \<^verbatim>\<open>transactions\<close> table. Every handler is one
  \<^verbatim>\<open>try { ... } catch (error) { reply.code(500).send(...) }\<close> block around Zod parsing
  and Knex queries.

  What the environment contributes is made explicit:
  \<^item> the table is a list of rows in insertion order;
  \<^item> \<^verbatim>\<open>randomUUID()\<close> reads the next element of a stream of future results;
  \<^item> every query that reaches the datastore is appended to a journal, and is rejected
    when the datastore is down (the rejection is what the \<^verbatim>\<open>catch\<close> blocks see
    besides a \<^verbatim>\<open>ZodError\<close>);
  \<^item> a number is finite, one of the two infinities (an out-of-range JSON literal such
    as \<^verbatim>\<open>1e999\<close> is parsed to one) or NaN. The only arithmetic of the handlers,
    \<^verbatim>\<open>amount * -1\<close>, is exact on IEEE doubles, so the finite values are not
    restricted to the doubles;
  \<^item> the aggregate \<^verbatim>\<open>SUM(amount)\<close> is computed by the datastore, in the
    floating-point arithmetic of its engine, which rounds and overflows. The engine is
    not part of the sources: the aggregate over rows is kept as the list of the amounts
    it is taken of, and is not computed.
\<close>

subsection \<open>Values, rows, requests and replies\<close>

datatype number = Finite real | PosInfinity | NegInfinity | NaN

text \<open>\<^verbatim>\<open>x * -1\<close>\<close>

fun times_minus_one :: "number \<Rightarrow> number" where
  "times_minus_one (Finite x) = Finite (x * - 1)"
| "times_minus_one PosInfinity = NegInfinity"
| "times_minus_one NegInfinity = PosInfinity"
| "times_minus_one NaN = NaN"

datatype jsval =
    JUndefined
  | JNull
  | JBool bool
  | JNum number
  | JStr string
  | JArr "jsval list"
  | JObj "(string \<times> jsval) list"

text \<open>A row of \<^verbatim>\<open>transactions(id, title, amount, session_id)\<close>.\<close>

record transaction =
  id' :: string
  title :: string
  amount :: number
  session_id :: string

text \<open>
  \<^verbatim>\<open>request.cookies\<close>, \<^verbatim>\<open>request.params\<close> and \<^verbatim>\<open>request.body\<close>. A property that
  is not there reads as \<^verbatim>\<open>undefined\<close>, here \<open>None\<close>.
\<close>

record request =
  cookies :: "string \<rightharpoonup> string"
  params :: "string \<rightharpoonup> string"
  body :: jsval

text \<open>
  The result of \<^verbatim>\<open>SUM(amount)\<close>: \<^verbatim>\<open>NULL\<close>, or the number the engine makes of the
  amounts of the selected rows.
\<close>

datatype aggregate = SQL_NULL | SUM_of "number list"

datatype payload =
    Transactions "transaction list"
  | Transaction transaction
  | Summary aggregate
  | Message string
  | Error string
  | Unauthenticated

record cookie_options =
  path :: string
  maxAge :: nat

text \<open>
  The reply object is mutable: \<^verbatim>\<open>setCookie\<close>, \<^verbatim>\<open>code\<close> and \<^verbatim>\<open>send\<close> update it, and a
  cookie set before an exception stays on the reply the \<^verbatim>\<open>catch\<close> block sends.
\<close>

record reply =
  statusCode :: nat
  sent :: "payload option"
  set_cookies :: "(string \<times> string \<times> cookie_options) list"

definition new_reply :: reply where
  "new_reply = \<lparr>statusCode = 200, sent = None, set_cookies = []\<rparr>"

definition code :: "nat \<Rightarrow> reply \<Rightarrow> reply" where
  "code n reply = reply\<lparr>statusCode := n\<rparr>"

definition send :: "payload \<Rightarrow> reply \<Rightarrow> reply" where
  "send p reply = reply\<lparr>sent := Some p\<rparr>"

definition setCookie :: "string \<Rightarrow> string \<Rightarrow> cookie_options \<Rightarrow> reply \<Rightarrow> reply" where
  "setCookie name v opts reply = reply\<lparr>set_cookies := set_cookies reply @ [(name, v, opts)]\<rparr>"

text \<open>
  What the client reads. \<^verbatim>\<open>reply.send(object)\<close> of a route that declares no response
  schema writes \<^verbatim>\<open>JSON.stringify(object)\<close>, in which a number that is not finite is
  written \<^verbatim>\<open>null\<close>. \<open>None\<close> stands for a body that the sources do not determine:
  the one of the 401 reply, of which the specification says nothing, and the one of a
  summary over rows, whose number is the engine's.
\<close>

fun json_number :: "number \<Rightarrow> jsval" where
  "json_number (Finite x) = JNum (Finite x)"
| "json_number PosInfinity = JNull"
| "json_number NegInfinity = JNull"
| "json_number NaN = JNull"

definition json_transaction :: "transaction \<Rightarrow> jsval" where
  "json_transaction r =
     JObj [(''id'', JStr (id' r)), (''title'', JStr (title r)),
           (''amount'', json_number (amount r)), (''session_id'', JStr (session_id r))]"

fun json_payload :: "payload \<Rightarrow> jsval option" where
  "json_payload (Transactions rows) =
     Some (JObj [(''transactions'', JArr (map json_transaction rows))])"
| "json_payload (Transaction r) = Some (JObj [(''transaction'', json_transaction r)])"
| "json_payload (Summary SQL_NULL) = Some (JObj [(''summary'', JObj [(''amount'', JNull)])])"
| "json_payload (Summary (SUM_of xs)) = None"
| "json_payload (Message m) = Some (JObj [(''message'', JStr m)])"
| "json_payload (Error e) = Some (JObj [(''error'', JStr e)])"
| "json_payload Unauthenticated = None"

definition wire :: "reply \<Rightarrow> jsval option" where
  "wire reply = sent reply \<bind> json_payload"

subsection \<open>The datastore and the source of identifiers\<close>

datatype query =
    Select_all string
  | Select_first string string
  | Select_sum string
  | Insert_row transaction
  | Update_rows string string string number
  | Delete_rows string string

record world =
  transactions :: "transaction list"
  db_up :: bool
  journal :: "query list"
  entropy :: "string stream"

datatype exn = ZodError | KnexError

definition randomUUID :: "world \<Rightarrow> string \<times> world" where
  "randomUUID w = (shd (entropy w), w\<lparr>entropy := stl (entropy w)\<rparr>)"

definition submit :: "query \<Rightarrow> world \<Rightarrow> world" where
  "submit q w = w\<lparr>journal := journal w @ [q]\<rparr>"

definition owned_by :: "string \<Rightarrow> transaction \<Rightarrow> bool" where
  "owned_by sid r = (session_id r = sid)"

definition matches :: "string \<Rightarrow> string \<Rightarrow> transaction \<Rightarrow> bool" where
  "matches i sid r = (id' r = i \<and> session_id r = sid)"

text \<open>\<^verbatim>\<open>SUM\<close> over no rows is \<^verbatim>\<open>NULL\<close>.\<close>

fun sql_sum :: "number list \<Rightarrow> aggregate" where
  "sql_sum [] = SQL_NULL"
| "sql_sum (x # xs) = SUM_of (x # xs)"

text \<open>
  The query builders. Knex refuses to compile a query with an \<^verbatim>\<open>undefined\<close> binding,
  so such a query throws before anything is sent.

  \<^verbatim>\<open>knex('transactions').where('transactions.session_id', sessionId).select('*')\<close>
\<close>

definition where_select :: "string option \<Rightarrow> world \<Rightarrow> (exn + transaction list) \<times> world" where
  "where_select sessionId w =
     (case sessionId of
        None \<Rightarrow> (Inl KnexError, w)
      | Some sid \<Rightarrow>
          (if db_up w
           then (Inr (filter (owned_by sid) (transactions w)), submit (Select_all sid) w)
           else (Inl KnexError, submit (Select_all sid) w)))"

text \<open>\<^verbatim>\<open>knex('transactions').where({ id, session_id: sessionId }).first()\<close>\<close>

definition where_first :: "string \<Rightarrow> string option \<Rightarrow> world \<Rightarrow> (exn + transaction option) \<times> world" where
  "where_first i sessionId w =
     (case sessionId of
        None \<Rightarrow> (Inl KnexError, w)
      | Some sid \<Rightarrow>
          (if db_up w
           then (Inr (find (matches i sid) (transactions w)), submit (Select_first i sid) w)
           else (Inl KnexError, submit (Select_first i sid) w)))"

text \<open>\<^verbatim>\<open>knex('transactions').where('session_id', sessionId).sum('amount', { as: 'amount' }).first()\<close>\<close>

definition where_sum :: "string option \<Rightarrow> world \<Rightarrow> (exn + aggregate) \<times> world" where
  "where_sum sessionId w =
     (case sessionId of
        None \<Rightarrow> (Inl KnexError, w)
      | Some sid \<Rightarrow>
          (if db_up w
           then (Inr (sql_sum (map amount (filter (owned_by sid) (transactions w)))),
                 submit (Select_sum sid) w)
           else (Inl KnexError, submit (Select_sum sid) w)))"

text \<open>\<^verbatim>\<open>knex('transactions').insert({ ... })\<close>\<close>

definition insert_row :: "transaction \<Rightarrow> world \<Rightarrow> (exn + unit) \<times> world" where
  "insert_row r w =
     (if db_up w
      then (Inr (), (submit (Insert_row r) w)\<lparr>transactions := transactions w @ [r]\<rparr>)
      else (Inl KnexError, submit (Insert_row r) w))"

text \<open>\<^verbatim>\<open>knex('transactions').where({ id, session_id: sessionId }).update({ title, amount })\<close>\<close>

definition where_update ::
  "string \<Rightarrow> string option \<Rightarrow> string \<Rightarrow> number \<Rightarrow> world \<Rightarrow> (exn + unit) \<times> world" where
  "where_update i sessionId t a w =
     (case sessionId of
        None \<Rightarrow> (Inl KnexError, w)
      | Some sid \<Rightarrow>
          (if db_up w
           then (Inr (),
                 (submit (Update_rows i sid t a) w)
                   \<lparr>transactions :=
                      map (\<lambda>r. if matches i sid r then r\<lparr>title := t, amount := a\<rparr> else r)
                        (transactions w)\<rparr>)
           else (Inl KnexError, submit (Update_rows i sid t a) w)))"

text \<open>\<^verbatim>\<open>knex('transactions').where({ id, session_id: sessionId }).del()\<close>\<close>

definition where_del :: "string \<Rightarrow> string option \<Rightarrow> world \<Rightarrow> (exn + unit) \<times> world" where
  "where_del i sessionId w =
     (case sessionId of
        None \<Rightarrow> (Inl KnexError, w)
      | Some sid \<Rightarrow>
          (if db_up w
           then (Inr (),
                 (submit (Delete_rows i sid) w)
                   \<lparr>transactions := filter (\<lambda>r. \<not> matches i sid r) (transactions w)\<rparr>)
           else (Inl KnexError, submit (Delete_rows i sid) w)))"

subsection \<open>The Zod schemas\<close>

text \<open>
  \<^verbatim>\<open>z.string().uuid()\<close>: five groups of 8, 4, 4, 4 and 12 hexadecimal digits, either
  case, separated by hyphens. (Releases of Zod differ in whether they also constrain the
  version and variant digits; nothing below depends on it.)
\<close>

definition hex_digit :: "char \<Rightarrow> bool" where
  "hex_digit c = (c \<in> set ''0123456789abcdefABCDEF'')"

fun hex_run :: "nat \<Rightarrow> string \<Rightarrow> string option" where
  "hex_run 0 s = Some s"
| "hex_run (Suc n) [] = None"
| "hex_run (Suc n) (c # s) = (if hex_digit c then hex_run n s else None)"

fun hyphen :: "string \<Rightarrow> string option" where
  "hyphen [] = None"
| "hyphen (c # s) = (if c = CHR ''-'' then Some s else None)"

definition uuid :: "string \<Rightarrow> bool" where
  "uuid s =
     (hex_run 8 s \<bind> hyphen \<bind> hex_run 4 \<bind> hyphen \<bind> hex_run 4 \<bind> hyphen
        \<bind> hex_run 4 \<bind> hyphen \<bind> hex_run 12 = Some [])"

text \<open>\<^verbatim>\<open>z.object({ id: z.string().uuid() }).parse(request.params)\<close>\<close>

definition getTransactionsParamsSchema :: "(string \<rightharpoonup> string) \<Rightarrow> exn + string" where
  "getTransactionsParamsSchema ps =
     (case ps ''id'' of
        None \<Rightarrow> Inl ZodError
      | Some i \<Rightarrow> if uuid i then Inr i else Inl ZodError)"

text \<open>
  \<^verbatim>\<open>z.object({ title: z.string(), amount: z.number(), type: z.enum(['credit', 'debit']) })\<close>.
  The input must be an object; each of the three properties is read and checked, any
  other property is dropped. \<^verbatim>\<open>z.number()\<close> refuses NaN and, having no
  \<^verbatim>\<open>.finite()\<close>, accepts the infinities. The create and the update handler declare
  the same schema.
\<close>

fun z_string :: "jsval option \<Rightarrow> string option" where
  "z_string (Some (JStr s)) = Some s"
| "z_string _ = None"

fun z_number :: "jsval option \<Rightarrow> number option" where
  "z_number (Some (JNum NaN)) = None"
| "z_number (Some (JNum x)) = Some x"
| "z_number _ = None"

fun z_enum :: "string list \<Rightarrow> jsval option \<Rightarrow> string option" where
  "z_enum vs (Some (JStr s)) = (if s \<in> set vs then Some s else None)"
| "z_enum vs _ = None"

fun transactionBodySchema :: "jsval \<Rightarrow> exn + (string \<times> number \<times> string)" where
  "transactionBodySchema (JObj fs) =
     (case (z_string (map_of fs ''title''), z_number (map_of fs ''amount''),
            z_enum [''credit'', ''debit''] (map_of fs ''type'')) of
        (Some t, Some a, Some ty) \<Rightarrow> Inr (t, a, ty)
      | _ \<Rightarrow> Inl ZodError)"
| "transactionBodySchema _ = Inl ZodError"

subsection \<open>The handlers\<close>

type_synonym handler = "request \<Rightarrow> reply \<Rightarrow> world \<Rightarrow> reply \<times> world"

text \<open>The body of every \<^verbatim>\<open>catch\<close> block.\<close>

definition internal_server_error :: "reply \<Rightarrow> reply" where
  "internal_server_error reply = send (Error ''Internal Server Error'') (code 500 reply)"

definition not_found :: "reply \<Rightarrow> reply" where
  "not_found reply = send (Message ''Transaction not found'') (code 404 reply)"

text \<open>\<^verbatim>\<open>GET /\<close>\<close>

definition get_root :: handler where
  "get_root request reply w =
     (let sessionId = cookies request ''sessionId'' in
      case where_select sessionId w of
        (Inl e, w') \<Rightarrow> (internal_server_error reply, w')
      | (Inr rows, w') \<Rightarrow> (send (Transactions rows) (code 200 reply), w'))"

text \<open>\<^verbatim>\<open>GET /:id\<close>\<close>

definition get_id :: handler where
  "get_id request reply w =
     (case getTransactionsParamsSchema (params request) of
        Inl e \<Rightarrow> (internal_server_error reply, w)
      | Inr i \<Rightarrow>
          (let sessionId = cookies request ''sessionId'' in
           case where_first i sessionId w of
             (Inl e, w') \<Rightarrow> (internal_server_error reply, w')
           | (Inr None, w') \<Rightarrow> (not_found reply, w')
           | (Inr (Some r), w') \<Rightarrow> (send (Transaction r) (code 200 reply), w')))"

text \<open>\<^verbatim>\<open>GET /summary\<close>\<close>

definition get_summary :: handler where
  "get_summary request reply w =
     (let sessionId = cookies request ''sessionId'' in
      case where_sum sessionId w of
        (Inl e, w') \<Rightarrow> (internal_server_error reply, w')
      | (Inr summary, w') \<Rightarrow> (send (Summary summary) (code 200 reply), w'))"

text \<open>
  \<^verbatim>\<open>POST /\<close>. \<^verbatim>\<open>!sessionId\<close> holds for \<^verbatim>\<open>undefined\<close> and for the empty string. The
  row's \<^verbatim>\<open>randomUUID()\<close> is evaluated after the one of the session.
\<close>

definition falsy :: "string option \<Rightarrow> bool" where
  "falsy s = (s = None \<or> s = Some [])"

definition post_root :: handler where
  "post_root request reply w =
     (case transactionBodySchema (body request) of
        Inl e \<Rightarrow> (internal_server_error reply, w)
      | Inr (t, a, ty) \<Rightarrow>
          (let (sessionId, reply1, w1) =
                 (if falsy (cookies request ''sessionId'')
                  then (let (u, w') = randomUUID w
                        in (u,
                            setCookie ''sessionId'' u
                              \<lparr>path = ''/'', maxAge = 1000 * 60 * 60 * 24 * 7\<rparr> reply,
                            w'))
                  else (the (cookies request ''sessionId''), reply, w));
               (u2, w2) = randomUUID w1
           in case insert_row
                     \<lparr>id' = u2, title = t,
                      amount = (if ty = ''credit'' then a else times_minus_one a),
                      session_id = sessionId\<rparr> w2 of
                (Inl e, w3) \<Rightarrow> (internal_server_error reply1, w3)
              | (Inr _, w3) \<Rightarrow>
                  (send (Message ''Transaction created successfully'') (code 201 reply1), w3)))"

text \<open>\<^verbatim>\<open>PUT /:id\<close>. The body schema is declared and applied in the \<^verbatim>\<open>else\<close> branch.\<close>

definition put_id :: handler where
  "put_id request reply w =
     (case getTransactionsParamsSchema (params request) of
        Inl e \<Rightarrow> (internal_server_error reply, w)
      | Inr i \<Rightarrow>
          (let sessionId = cookies request ''sessionId'' in
           case where_first i sessionId w of
             (Inl e, w') \<Rightarrow> (internal_server_error reply, w')
           | (Inr None, w') \<Rightarrow> (not_found reply, w')
           | (Inr (Some r), w') \<Rightarrow>
               (case transactionBodySchema (body request) of
                  Inl e \<Rightarrow> (internal_server_error reply, w')
                | Inr (t, a, ty) \<Rightarrow>
                    (case where_update i sessionId t
                            (if ty = ''credit'' then a else times_minus_one a) w' of
                       (Inl e, w'') \<Rightarrow> (internal_server_error reply, w'')
                     | (Inr _, w'') \<Rightarrow>
                         (send (Message ''Transaction updated successfully'') (code 200 reply),
                          w'')))))"

text \<open>\<^verbatim>\<open>DELETE /:id\<close>\<close>

definition delete_id :: handler where
  "delete_id request reply w =
     (case getTransactionsParamsSchema (params request) of
        Inl e \<Rightarrow> (internal_server_error reply, w)
      | Inr i \<Rightarrow>
          (let sessionId = cookies request ''sessionId'' in
           case where_first i sessionId w of
             (Inl e, w') \<Rightarrow> (internal_server_error reply, w')
           | (Inr None, w') \<Rightarrow> (not_found reply, w')
           | (Inr (Some r), w') \<Rightarrow>
               (case where_del i sessionId w' of
                  (Inl e, w'') \<Rightarrow> (internal_server_error reply, w'')
                | (Inr _, w'') \<Rightarrow>
                    (send (Message ''Transaction deleted successfully'') (code 200 reply),
                     w''))))"

subsection \<open>The session guard and the route table\<close>

text \<open>
  Modelled from the spec: \<^verbatim>\<open>checkSessionIdExists\<close> of
  \<^verbatim>\<open>src/middlewares/check-session-id-exists\<close>, which is imported by the routes and is not
  among the sources. Section 4.1 of the specification: it extracts the session cookie
  and, if the cookie is absent, halts processing with a 401 failure; otherwise the
  request goes on to the handler. The specification gives the 401 reply no body.
  \<open>Some reply\<close> is a reply sent by the hook, which ends the request.
\<close>

definition checkSessionIdExists :: "request \<Rightarrow> reply \<Rightarrow> reply option" where
  "checkSessionIdExists request reply =
     (case cookies request ''sessionId'' of
        None \<Rightarrow> Some (send Unauthenticated (code 401 reply))
      | Some sid \<Rightarrow> None)"

text \<open>\<^verbatim>\<open>{ preHandler: [hook] }\<close>: the handler runs only if the hook has not replied.\<close>

definition preHandler :: "(request \<Rightarrow> reply \<Rightarrow> reply option) \<Rightarrow> handler \<Rightarrow> handler" where
  "preHandler hook h request reply w =
     (case hook request reply of
        Some halted \<Rightarrow> (halted, w)
      | None \<Rightarrow> h request reply w)"

datatype route = GET_root | GET_id | GET_summary | POST_root | PUT_id | DELETE_id

fun transactionsRoutes :: "route \<Rightarrow> request \<Rightarrow> world \<Rightarrow> reply \<times> world" where
  "transactionsRoutes GET_root request w =
     preHandler checkSessionIdExists get_root request new_reply w"
| "transactionsRoutes GET_id request w =
     preHandler checkSessionIdExists get_id request new_reply w"
| "transactionsRoutes GET_summary request w =
     preHandler checkSessionIdExists get_summary request new_reply w"
| "transactionsRoutes POST_root request w = post_root request new_reply w"
| "transactionsRoutes PUT_id request w =
     preHandler checkSessionIdExists put_id request new_reply w"
| "transactionsRoutes DELETE_id request w =
     preHandler checkSessionIdExists delete_id request new_reply w"

subsection \<open>Sample requests and stores\<close>

text \<open>Concrete inputs, used where a statement is evaluated.\<close>

definition u1 :: string where "u1 = ''11111111-1111-4111-8111-111111111111''"
definition u2 :: string where "u2 = ''22222222-2222-4222-8222-222222222222''"
definition u3 :: string where "u3 = ''33333333-3333-4333-8333-333333333333''"
definition u4 :: string where "u4 = ''44444444-4444-4444-8444-444444444444''"
definition u5 :: string where "u5 = ''55555555-5555-4555-8555-555555555555''"

definition salary :: jsval where
  "salary = JObj [(''title'', JStr ''Salary''), (''amount'', JNum (Finite 5000)),
                  (''type'', JStr ''credit'')]"

definition rent :: jsval where
  "rent = JObj [(''title'', JStr ''Rent''), (''amount'', JNum (Finite 1200)),
                (''type'', JStr ''debit'')]"

definition untyped :: jsval where
  "untyped = JObj [(''title'', JStr ''Rent''), (''amount'', JNum (Finite 1200)),
                   (''type'', JStr ''loan'')]"

text \<open>The body \<^verbatim>\<open>{"title": "Windfall", "amount": 1e999, "type": "credit"}\<close>, parsed.\<close>

definition windfall :: jsval where
  "windfall = JObj [(''title'', JStr ''Windfall''), (''amount'', JNum PosInfinity),
                    (''type'', JStr ''credit'')]"

definition anonymous :: "jsval \<Rightarrow> request" where
  "anonymous b = \<lparr>cookies = Map.empty, params = Map.empty, body = b\<rparr>"

definition in_session :: "string \<Rightarrow> string \<Rightarrow> jsval \<Rightarrow> request" where
  "in_session sid i b = \<lparr>cookies = [''sessionId'' \<mapsto> sid], params = [''id'' \<mapsto> i], body = b\<rparr>"

definition empty_store :: world where
  "empty_store = \<lparr>transactions = [], db_up = True, journal = [],
                  entropy = [u1, u2, u3, u4] @- sconst u5\<rparr>"

definition salary_row :: transaction where
  "salary_row = \<lparr>id' = u2, title = ''Salary'', amount = Finite 5000, session_id = u1\<rparr>"

definition rent_row :: transaction where
  "rent_row = \<lparr>id' = u3, title = ''Rent'', amount = Finite (- 1200), session_id = u1\<rparr>"

definition ledger :: world where
  "ledger = \<lparr>transactions = [salary_row, rent_row], db_up = True, journal = [],
             entropy = [u4] @- sconst u5\<rparr>"

section \<open>Properties\<close>

lemmas store_defs = where_select_def where_first_def where_sum_def insert_row_def
  where_update_def where_del_def submit_def randomUUID_def owned_by_def matches_def

lemmas reply_defs = new_reply_def code_def send_def setCookie_def internal_server_error_def
  not_found_def

lemmas wire_defs = wire_def json_transaction_def

lemmas handler_defs = get_root_def get_id_def get_summary_def post_root_def put_id_def
  delete_id_def preHandler_def checkSessionIdExists_def getTransactionsParamsSchema_def
  falsy_def

lemmas sample_defs = u1_def u2_def u3_def u4_def u5_def salary_def rent_def untyped_def
  windfall_def anonymous_def in_session_def empty_store_def salary_row_def rent_row_def
  ledger_def

lemmas uuid_eval = uuid_def hex_digit_def eval_nat_numeral

subsection \<open>Facts about the samples\<close>

lemma uuid_samples:
  "uuid u1" "uuid u2" "uuid u3" "uuid u4" "uuid u5" "\<not> uuid ''not-a-uuid''"
  by (simp_all add: sample_defs uuid_eval)

subsection \<open>The session guard\<close>

text \<open>
  Claim C8. A list, get-one, summarize, update or delete request without the session
  cookie is answered 401 by the guard and leaves the store, its journal included, as it
  was, whatever its path id and body are: no validator and no query has run. The create
  route has no guard: without a cookie it never answers 401, and it answers 201 when the
  body is valid and the datastore is reachable.
\<close>

theorem guard_halts_without_cookie:
  assumes "cookies request ''sessionId'' = None"
  shows "(r \<noteq> POST_root \<longrightarrow>
            statusCode (fst (transactionsRoutes r request w)) = 401 \<and>
            snd (transactionsRoutes r request w) = w) \<and>
         statusCode (fst (transactionsRoutes POST_root request w)) \<noteq> 401 \<and>
         (transactionBodySchema (body request) = Inr (t, a, ty) \<longrightarrow> db_up w \<longrightarrow>
            statusCode (fst (transactionsRoutes POST_root request w)) = 201)"
  using assms
  by (cases r)
     (auto simp: handler_defs reply_defs store_defs Let_def
           split: sum.splits prod.splits option.splits if_splits)

theorem guard_halts_without_cookie_witness:
  "cookies (anonymous salary) ''sessionId'' = None \<and>
   statusCode (fst (transactionsRoutes DELETE_id (anonymous salary) ledger)) = 401 \<and>
   snd (transactionsRoutes DELETE_id (anonymous salary) ledger) = ledger \<and>
   transactionBodySchema (body (anonymous salary)) = Inr (''Salary'', Finite 5000, ''credit'') \<and>
   db_up ledger \<and>
   statusCode (fst (transactionsRoutes POST_root (anonymous salary) ledger)) = 201"
proof -
  have c: "cookies (anonymous salary) ''sessionId'' = None"
    by (simp add: anonymous_def)
  have b: "transactionBodySchema (body (anonymous salary)) = Inr (''Salary'', Finite 5000, ''credit'')"
    by (simp add: anonymous_def salary_def)
  have u: "db_up ledger"
    by (simp add: ledger_def)
  from guard_halts_without_cookie [OF c, of DELETE_id ledger "''Salary''" "Finite 5000" "''credit''"] b u c
  show ?thesis by simp
qed

subsection \<open>Validation errors and the table\<close>

text \<open>
  Claim C10. A request whose body fails the body schema (create, update) or whose path
  id fails the id schema (get-one, update, delete) leaves the transactions table exactly
  as it was: nothing is inserted and no stored field changes.
\<close>

theorem validation_error_keeps_table:
  assumes "(r \<in> {POST_root, PUT_id} \<and> transactionBodySchema (body request) = Inl ZodError) \<or>
           (r \<in> {GET_id, PUT_id, DELETE_id} \<and>
              getTransactionsParamsSchema (params request) = Inl ZodError)"
  shows "transactions (snd (transactionsRoutes r request w)) = transactions w"
  using assms
  by (cases r)
     (auto simp: handler_defs reply_defs store_defs Let_def
           split: sum.splits prod.splits option.splits if_splits)

theorem validation_error_keeps_table_witness:
  "transactionBodySchema (body (in_session u1 u3 untyped)) = Inl ZodError \<and>
   getTransactionsParamsSchema (params (in_session u1 u3 untyped)) = Inr u3 \<and>
   find (matches u3 u1) (transactions ledger) = Some rent_row \<and>
   transactions (snd (transactionsRoutes PUT_id (in_session u1 u3 untyped) ledger)) =
     [salary_row, rent_row]"
proof -
  have b: "transactionBodySchema (body (in_session u1 u3 untyped)) = Inl ZodError"
    by (simp add: in_session_def untyped_def)
  have i: "getTransactionsParamsSchema (params (in_session u1 u3 untyped)) = Inr u3"
    by (simp add: in_session_def getTransactionsParamsSchema_def u3_def uuid_eval)
  have f: "find (matches u3 u1) (transactions ledger) = Some rent_row"
    by (simp add: sample_defs matches_def)
  have t: "transactions ledger = [salary_row, rent_row]"
    by (simp add: ledger_def)
  from validation_error_keeps_table [of PUT_id "in_session u1 u3 untyped" ledger] b i f t
  show ?thesis by simp
qed

subsection \<open>What the schemas and the two writing handlers compute\<close>

lemma z_enum_Some: "z_enum vs v = Some s \<Longrightarrow> s \<in> set vs"
  by (cases "(vs, v)" rule: z_enum.cases) (auto split: if_splits)

lemma z_number_Some: "z_number v = Some a \<longleftrightarrow> v = Some (JNum a) \<and> a \<noteq> NaN"
  by (cases "v" rule: z_number.cases) auto

lemma z_string_Some: "z_string v = Some t \<longleftrightarrow> v = Some (JStr t)"
  by (cases "v" rule: z_string.cases) auto

lemma schema_type:
  "transactionBodySchema b = Inr (t, a, ty) \<Longrightarrow> ty = ''credit'' \<or> ty = ''debit''"
  by (cases b) (auto split: option.splits dest: z_enum_Some)

text \<open>
  The schema accepts exactly the objects with a string \<open>title\<close>, a number \<open>amount\<close> other
  than NaN and a \<open>type\<close> that is \<open>credit\<close> or \<open>debit\<close>, and returns these three
  properties of the body.
\<close>

lemma schema_accepts:
  assumes "b = JObj fs"
      and "map_of fs ''title'' = Some (JStr t)"
      and "map_of fs ''amount'' = Some (JNum a)" and "a \<noteq> NaN"
      and "map_of fs ''type'' = Some (JStr ty)" and "ty = ''credit'' \<or> ty = ''debit''"
  shows "transactionBodySchema b = Inr (t, a, ty)"
proof -
  have "z_number (Some (JNum a)) = Some a"
    using assms(4) by (simp add: z_number_Some)
  then show ?thesis
    using assms by auto
qed

lemma schema_accepts_only:
  assumes "transactionBodySchema b = Inr (t, a, ty)"
  shows "\<exists>fs. b = JObj fs \<and> map_of fs ''title'' = Some (JStr t) \<and>
              map_of fs ''amount'' = Some (JNum a) \<and> a \<noteq> NaN \<and>
              map_of fs ''type'' = Some (JStr ty) \<and> (ty = ''credit'' \<or> ty = ''debit'')"
proof (cases b)
  case (JObj fs)
  with assms have t: "z_string (map_of fs ''title'') = Some t"
    and a: "z_number (map_of fs ''amount'') = Some a"
    and y: "z_enum [''credit'', ''debit''] (map_of fs ''type'') = Some ty"
    by (auto split: option.splits)
  from y have "map_of fs ''type'' = Some (JStr ty)"
    by (cases "([''credit'', ''debit''], map_of fs ''type'')" rule: z_enum.cases)
       (auto split: if_splits)
  with t a schema_type [OF assms] JObj show ?thesis
    by (simp add: z_number_Some z_string_Some)
qed (use assms in simp_all)

lemma post_root_inserts:
  assumes "transactionBodySchema (body request) = Inr (t, a, ty)" and "db_up w"
  shows "transactions (snd (post_root request reply w)) =
           transactions w @
             [\<lparr>id' = (if falsy (cookies request ''sessionId'')
                       then shd (stl (entropy w)) else shd (entropy w)),
               title = t,
               amount = (if ty = ''credit'' then a else times_minus_one a),
               session_id = (if falsy (cookies request ''sessionId'')
                             then shd (entropy w) else the (cookies request ''sessionId''))\<rparr>]"
  using assms by (simp add: post_root_def insert_row_def submit_def randomUUID_def)


lemma post_root_up:
  "db_up (snd (post_root request reply w)) = db_up w"
  by (auto simp: post_root_def insert_row_def submit_def randomUUID_def
           split: sum.splits prod.splits)

lemma post_root_reply:
  assumes "transactionBodySchema (body request) = Inr (t, a, ty)" and "db_up w"
  shows "fst (post_root request new_reply w) =
           \<lparr>statusCode = 201, sent = Some (Message ''Transaction created successfully''),
            set_cookies =
              (if falsy (cookies request ''sessionId'')
               then [(''sessionId'', shd (entropy w),
                      \<lparr>path = ''/'', maxAge = 1000 * 60 * 60 * 24 * 7\<rparr>)]
               else [])\<rparr>"
  using assms
  by (simp add: post_root_def insert_row_def submit_def randomUUID_def reply_defs)

lemma find_fresh:
  "i \<notin> id' ` set rows \<Longrightarrow> find (matches i sid) (rows @ [row]) =
     (if matches i sid row then Some row else None)"
  by (induction rows) (auto simp: matches_def)

subsection \<open>Validation failures and the status of the reply\<close>

text \<open>
  Claim C1, as stated: a request that fails input validation is answered with a
  400-class status, and a get-one with id \<open>not-a-uuid\<close> returns 400. It does not hold:
  the \<^verbatim>\<open>ZodError\<close> is thrown inside the handler's \<^verbatim>\<open>try\<close> block, and the
  \<^verbatim>\<open>catch\<close> block answers 500.
\<close>

theorem get_one_malformed_id_counterexample:
  "statusCode (fst (transactionsRoutes GET_id (in_session u1 ''not-a-uuid'' JUndefined) ledger)) = 500 \<and>
   \<not> (400 \<le> statusCode (fst (transactionsRoutes GET_id (in_session u1 ''not-a-uuid'' JUndefined) ledger)) \<and>
      statusCode (fst (transactionsRoutes GET_id (in_session u1 ''not-a-uuid'' JUndefined) ledger)) < 500)"
  by (simp add: handler_defs reply_defs in_session_def uuid_eval)

text \<open>
  Claim C1, amended. A request that fails validation where its handler validates it
  (create with an invalid body; get-one, update or delete with a session cookie and a
  path id that is not a canonical UUID; update with a session cookie, a valid id of a
  row the session owns, a reachable datastore and an invalid body) is answered with
  status 500 and the body of the catch block, which is distinct from the 404 reply.
  When the path id or the body of a create is what fails, the store is left as it was,
  with no query in its journal.
\<close>

theorem validation_failure_replies_500:
  assumes "(r = POST_root \<and> transactionBodySchema (body request) = Inl ZodError) \<or>
           (r \<in> {GET_id, PUT_id, DELETE_id} \<and> cookies request ''sessionId'' = Some sid \<and>
              getTransactionsParamsSchema (params request) = Inl ZodError) \<or>
           (r = PUT_id \<and> cookies request ''sessionId'' = Some sid \<and>
              getTransactionsParamsSchema (params request) = Inr i \<and>
              db_up w \<and> find (matches i sid) (transactions w) = Some row \<and>
              transactionBodySchema (body request) = Inl ZodError)"
  shows "fst (transactionsRoutes r request w) =
           \<lparr>statusCode = 500, sent = Some (Error ''Internal Server Error''), set_cookies = []\<rparr> \<and>
         (r \<noteq> PUT_id \<or> getTransactionsParamsSchema (params request) = Inl ZodError
            \<longrightarrow> snd (transactionsRoutes r request w) = w)"
  using assms
  apply (intro conjI)
  subgoal by (cases r)
     (auto simp: handler_defs reply_defs store_defs Let_def
           split: sum.splits prod.splits option.splits if_splits)
  subgoal by (cases r)
     (auto simp: handler_defs reply_defs store_defs Let_def
           split: sum.splits prod.splits option.splits if_splits)
  done

theorem validation_failure_replies_500_witness:
  "cookies (in_session u1 ''not-a-uuid'' JUndefined) ''sessionId'' = Some u1 \<and>
   getTransactionsParamsSchema (params (in_session u1 ''not-a-uuid'' JUndefined)) = Inl ZodError \<and>
   transactionsRoutes GET_id (in_session u1 ''not-a-uuid'' JUndefined) ledger =
     (\<lparr>statusCode = 500, sent = Some (Error ''Internal Server Error''), set_cookies = []\<rparr>, ledger) \<and>
   journal (snd (transactionsRoutes GET_id (in_session u1 ''not-a-uuid'' JUndefined) ledger)) = []"
proof -
  have c: "cookies (in_session u1 ''not-a-uuid'' JUndefined) ''sessionId'' = Some u1"
    by (simp add: in_session_def)
  have p: "getTransactionsParamsSchema (params (in_session u1 ''not-a-uuid'' JUndefined)) = Inl ZodError"
    by (simp add: in_session_def getTransactionsParamsSchema_def uuid_eval)
  have j: "journal ledger = []"
    by (simp add: ledger_def)
  from validation_failure_replies_500
         [of GET_id "in_session u1 ''not-a-uuid'' JUndefined" u1 _ ledger] c p j
  show ?thesis by (simp add: prod_eq_iff)
qed

subsection \<open>The sign of the stored amount\<close>



subsection \<open>The session cookie's lifetime\<close>

text \<open>
  Claim C6. A create without a session cookie is answered 201 and sets the cookie
  \<open>sessionId\<close> with path \<open>/\<close>. The \<^verbatim>\<open>maxAge\<close> option it passes is
  \<^verbatim>\<open>1000 * 60 * 60 * 24 * 7\<close>, that is 604800000: seven days counted in milliseconds,
  for an option that the cookie plugin reads in seconds.
\<close>

theorem create_cookie_max_age:
  "fst (transactionsRoutes POST_root (anonymous salary) empty_store) =
     \<lparr>statusCode = 201, sent = Some (Message ''Transaction created successfully''),
      set_cookies = [(''sessionId'', u1, \<lparr>path = ''/'', maxAge = 604800000\<rparr>)]\<rparr>"
  by (simp add: handler_defs reply_defs store_defs anonymous_def salary_def empty_store_def)

subsection \<open>The order of the update handler\<close>

text \<open>
  Claim C7, as stated: all validation of an update, path id and body, completes before
  the existence check, so a malformed body never triggers the existence-check read. It
  does not hold: the body schema is applied in the \<^verbatim>\<open>else\<close> branch, after the row
  was read. The journal of an update with a malformed body holds the read, whether the
  row exists (\<open>u3\<close>) or not (\<open>u5\<close>).
\<close>

theorem update_malformed_body_counterexample:
  "transactionBodySchema (body (in_session u1 u3 untyped)) = Inl ZodError \<and>
   journal ledger = [] \<and>
   journal (snd (transactionsRoutes PUT_id (in_session u1 u3 untyped) ledger)) =
     [Select_first u3 u1] \<and>
   journal (snd (transactionsRoutes PUT_id (in_session u1 u5 untyped) ledger)) =
     [Select_first u5 u1]"
  by (simp add: handler_defs reply_defs store_defs sample_defs uuid_eval)

text \<open>
  Claim C7, amended. An update that passed the session guard runs as path-id validation,
  existence check, body validation, update write.
  \<^item> A malformed path id is answered 500 before any query.
  \<^item> With a canonical id the existence-check read is issued. If the datastore rejects
    it the answer is 500. If it finds no row the answer is 404 whatever the body is:
    the body has not been validated.
  \<^item> If it finds a row, the body is validated next: a malformed body is answered 500,
    the read is the only query and the table is as it was; a valid body is followed by
    the update write, and the answer is 200.
\<close>

theorem update_pipeline:
  assumes "cookies request ''sessionId'' = Some sid"
  shows "(getTransactionsParamsSchema (params request) = Inl ZodError \<longrightarrow>
            transactionsRoutes PUT_id request w =
              (\<lparr>statusCode = 500, sent = Some (Error ''Internal Server Error''),
                  set_cookies = []\<rparr>, w)) \<and>
         (params request ''id'' = Some i \<longrightarrow> uuid i \<longrightarrow>
            (\<not> db_up w \<longrightarrow>
               fst (transactionsRoutes PUT_id request w) =
                 \<lparr>statusCode = 500, sent = Some (Error ''Internal Server Error''),
                  set_cookies = []\<rparr> \<and>
               journal (snd (transactionsRoutes PUT_id request w)) =
                 journal w @ [Select_first i sid] \<and>
               transactions (snd (transactionsRoutes PUT_id request w)) = transactions w) \<and>
            (db_up w \<longrightarrow> find (matches i sid) (transactions w) = None \<longrightarrow>
               fst (transactionsRoutes PUT_id request w) =
                 \<lparr>statusCode = 404, sent = Some (Message ''Transaction not found''),
                  set_cookies = []\<rparr> \<and>
               journal (snd (transactionsRoutes PUT_id request w)) =
                 journal w @ [Select_first i sid] \<and>
               transactions (snd (transactionsRoutes PUT_id request w)) = transactions w) \<and>
            (db_up w \<longrightarrow> find (matches i sid) (transactions w) = Some row \<longrightarrow>
             transactionBodySchema (body request) = Inl ZodError \<longrightarrow>
               fst (transactionsRoutes PUT_id request w) =
                 \<lparr>statusCode = 500, sent = Some (Error ''Internal Server Error''),
                  set_cookies = []\<rparr> \<and>
               journal (snd (transactionsRoutes PUT_id request w)) =
                 journal w @ [Select_first i sid] \<and>
               transactions (snd (transactionsRoutes PUT_id request w)) = transactions w) \<and>
            (db_up w \<longrightarrow> find (matches i sid) (transactions w) = Some row \<longrightarrow>
             body request = JObj fs \<longrightarrow>
             map_of fs ''title'' = Some (JStr t) \<longrightarrow>
             map_of fs ''amount'' = Some (JNum a) \<longrightarrow> a \<noteq> NaN \<longrightarrow>
             map_of fs ''type'' = Some (JStr ty) \<longrightarrow> ty = ''credit'' \<or> ty = ''debit'' \<longrightarrow>
               fst (transactionsRoutes PUT_id request w) =
                 \<lparr>statusCode = 200, sent = Some (Message ''Transaction updated successfully''),
                  set_cookies = []\<rparr> \<and>
               journal (snd (transactionsRoutes PUT_id request w)) =
                 journal w @
                   [Select_first i sid,
                    Update_rows i sid t (if ty = ''credit'' then a else times_minus_one a)]))"
proof -
  have g: "transactionsRoutes PUT_id request w = put_id request new_reply w"
    using assms by (simp add: preHandler_def checkSessionIdExists_def)
  have bad_id: "getTransactionsParamsSchema (params request) = Inl ZodError \<Longrightarrow>
                  put_id request new_reply w = (internal_server_error new_reply, w)"
    by (simp add: put_id_def)
  have down: "fst (put_id request new_reply w) = internal_server_error new_reply \<and>
              journal (snd (put_id request new_reply w)) = journal w @ [Select_first i sid] \<and>
              transactions (snd (put_id request new_reply w)) = transactions w"
    if "params request ''id'' = Some i" "uuid i" "\<not> db_up w"
    using that assms
    by (simp add: put_id_def getTransactionsParamsSchema_def where_first_def submit_def)
  have missing: "fst (put_id request new_reply w) = not_found new_reply \<and>
              journal (snd (put_id request new_reply w)) = journal w @ [Select_first i sid] \<and>
              transactions (snd (put_id request new_reply w)) = transactions w"
    if "params request ''id'' = Some i" "uuid i" "db_up w"
       "find (matches i sid) (transactions w) = None"
    using that assms
    by (simp add: put_id_def getTransactionsParamsSchema_def where_first_def submit_def)
  have bad_body: "fst (put_id request new_reply w) = internal_server_error new_reply \<and>
              journal (snd (put_id request new_reply w)) = journal w @ [Select_first i sid] \<and>
              transactions (snd (put_id request new_reply w)) = transactions w"
    if "params request ''id'' = Some i" "uuid i" "db_up w"
       "find (matches i sid) (transactions w) = Some row"
       "transactionBodySchema (body request) = Inl ZodError"
    using that assms
    by (simp add: put_id_def getTransactionsParamsSchema_def where_first_def submit_def)
  have written: "fst (put_id request new_reply w) =
                 send (Message ''Transaction updated successfully'') (code 200 new_reply) \<and>
              journal (snd (put_id request new_reply w)) =
                 journal w @
                   [Select_first i sid,
                    Update_rows i sid t (if ty = ''credit'' then a else times_minus_one a)]"
    if "params request ''id'' = Some i" "uuid i" "db_up w"
       "find (matches i sid) (transactions w) = Some row"
       "transactionBodySchema (body request) = Inr (t, a, ty)"
    using that assms
    by (simp add: put_id_def getTransactionsParamsSchema_def where_first_def
          where_update_def submit_def)
  have e: "\<lparr>statusCode = 500, sent = Some (Error ''Internal Server Error''),
             set_cookies = []\<rparr> = internal_server_error new_reply"
          "\<lparr>statusCode = 404, sent = Some (Message ''Transaction not found''),
             set_cookies = []\<rparr> = not_found new_reply"
          "\<lparr>statusCode = 200, sent = Some (Message ''Transaction updated successfully''),
             set_cookies = []\<rparr> =
             send (Message ''Transaction updated successfully'') (code 200 new_reply)"
    by (simp_all add: reply_defs)
  show ?thesis
    unfolding g e
    using bad_id down missing bad_body written schema_accepts [of "body request" fs t a ty]
    by blast
qed

theorem update_pipeline_witness:
  "cookies (in_session u1 u3 untyped) ''sessionId'' = Some u1 \<and>
   params (in_session u1 u3 untyped) ''id'' = Some u3 \<and> uuid u3 \<and> db_up ledger \<and>
   find (matches u3 u1) (transactions ledger) = Some rent_row \<and>
   transactionBodySchema (body (in_session u1 u3 untyped)) = Inl ZodError \<and>
   statusCode (fst (transactionsRoutes PUT_id (in_session u1 u3 untyped) ledger)) = 500 \<and>
   journal (snd (transactionsRoutes PUT_id (in_session u1 u3 untyped) ledger)) =
     [Select_first u3 u1] \<and>
   cookies (in_session u1 u5 untyped) ''sessionId'' = Some u1 \<and>
   params (in_session u1 u5 untyped) ''id'' = Some u5 \<and> uuid u5 \<and>
   find (matches u5 u1) (transactions ledger) = None \<and>
   statusCode (fst (transactionsRoutes PUT_id (in_session u1 u5 untyped) ledger)) = 404"
proof -
  have c: "cookies (in_session u1 u3 untyped) ''sessionId'' = Some u1"
          "cookies (in_session u1 u5 untyped) ''sessionId'' = Some u1"
    by (simp_all add: in_session_def)
  have p: "params (in_session u1 u3 untyped) ''id'' = Some u3"
          "params (in_session u1 u5 untyped) ''id'' = Some u5"
    by (simp_all add: in_session_def)
  have b: "transactionBodySchema (body (in_session u1 u3 untyped)) = Inl ZodError"
    by (simp add: in_session_def untyped_def)
  have u: "db_up ledger" and j: "journal ledger = []"
    by (simp_all add: ledger_def)
  have f: "find (matches u3 u1) (transactions ledger) = Some rent_row"
          "find (matches u5 u1) (transactions ledger) = None"
    by (simp_all add: sample_defs matches_def)
  from update_pipeline [OF c(1), where i = u3 and w = ledger and row = rent_row]
       update_pipeline [OF c(2), where i = u5 and w = ledger]
       c p b u j f uuid_samples
  show ?thesis by simp
qed

subsection \<open>Create, then fetch\<close>

text \<open>
  Claim C3, as stated: for every valid create payload, the transaction is fetched by the
  id returned from the create operation, and the record has the sign-adjusted input
  amount. It does not hold, on two counts. The create operation returns no id: its reply
  is the status 201, the confirmation message and the session cookie, while the id it
  drew (\<open>u2\<close> here) is only in the stored row. And a payload whose amount is an
  infinity is valid, but the record that is fetched carries the amount \<open>null\<close>.
\<close>

theorem create_reply_counterexample:
  "statusCode (fst (transactionsRoutes POST_root (anonymous salary) empty_store)) = 201 \<and>
   wire (fst (transactionsRoutes POST_root (anonymous salary) empty_store)) =
     Some (JObj [(''message'', JStr ''Transaction created successfully'')]) \<and>
   map (\<lambda>(n, v, opts). (n, v))
     (set_cookies (fst (transactionsRoutes POST_root (anonymous salary) empty_store))) =
     [(''sessionId'', u1)] \<and>
   map id' (transactions (snd (transactionsRoutes POST_root (anonymous salary) empty_store))) =
     [u2] \<and>
   statusCode (fst (transactionsRoutes POST_root (anonymous windfall) empty_store)) = 201 \<and>
   wire (fst (transactionsRoutes GET_id (in_session u1 u2 JUndefined)
                (snd (transactionsRoutes POST_root (anonymous windfall) empty_store)))) =
     Some (JObj [(''transaction'',
                  JObj [(''id'', JStr u2), (''title'', JStr ''Windfall''),
                        (''amount'', JNull), (''session_id'', JStr u1)])])"
proof -
  have "uuid u2"
    by (rule uuid_samples)
  then show ?thesis
    by (simp add: handler_defs reply_defs store_defs wire_defs anonymous_def in_session_def
          salary_def windfall_def empty_store_def)
qed

text \<open>
  Claim C3, amended. Take a create without a session cookie whose body is an object with
  the string \<open>t\<close> as its title, the finite number \<open>a\<close> as its amount and \<open>credit\<close> or
  \<open>debit\<close> as its type, on a reachable datastore, where \<^verbatim>\<open>randomUUID\<close> yields a
  canonical UUID that no stored row has as its id. The create issues the session cookie.
  The list operation with that cookie returns the session's rows with the new row last,
  which is where a client learns the new id. Get-one with that id and that cookie
  answers 200 with a record whose title is \<open>t\<close> and whose amount is \<open>a\<close> for a credit
  and \<open>- a\<close> for a debit, in the stored row and in the JSON the client reads.
\<close>

theorem create_then_get_round_trip:
  assumes "body request = JObj fs"
      and "map_of fs ''title'' = Some (JStr t)"
      and "map_of fs ''amount'' = Some (JNum (Finite a))"
      and "map_of fs ''type'' = Some (JStr ty)"
      and "ty = ''credit'' \<or> ty = ''debit''"
      and "db_up w"
      and "falsy (cookies request ''sessionId'')"
      and "uuid (shd (stl (entropy w)))"
      and "shd (stl (entropy w)) \<notin> id' ` set (transactions w)"
      and "cookies fetch ''sessionId'' = Some (shd (entropy w))"
      and "params fetch ''id'' = Some (shd (stl (entropy w)))"
  shows "map (\<lambda>(n, v, opts). (n, v))
           (set_cookies (fst (transactionsRoutes POST_root request w))) =
           [(''sessionId'', shd (entropy w))] \<and>
         sent (fst (transactionsRoutes GET_root fetch
                      (snd (transactionsRoutes POST_root request w)))) =
           Some (Transactions
                   (filter (\<lambda>row. session_id row = shd (entropy w)) (transactions w) @
                    [\<lparr>id' = shd (stl (entropy w)), title = t,
                      amount = Finite (if ty = ''credit'' then a else - a),
                      session_id = shd (entropy w)\<rparr>])) \<and>
         fst (transactionsRoutes GET_id fetch
                (snd (transactionsRoutes POST_root request w))) =
           \<lparr>statusCode = 200,
            sent = Some (Transaction
                           \<lparr>id' = shd (stl (entropy w)), title = t,
                            amount = Finite (if ty = ''credit'' then a else - a),
                            session_id = shd (entropy w)\<rparr>),
            set_cookies = []\<rparr> \<and>
         wire (fst (transactionsRoutes GET_id fetch
                      (snd (transactionsRoutes POST_root request w)))) =
           Some (JObj [(''transaction'',
                        JObj [(''id'', JStr (shd (stl (entropy w)))), (''title'', JStr t),
                              (''amount'', JNum (Finite (if ty = ''credit'' then a else - a))),
                              (''session_id'', JStr (shd (entropy w)))])])"
proof -
  let ?w' = "snd (transactionsRoutes POST_root request w)"
  let ?row = "\<lparr>id' = shd (stl (entropy w)), title = t,
               amount = Finite (if ty = ''credit'' then a else - a),
               session_id = shd (entropy w)\<rparr>"
  have b: "transactionBodySchema (body request) = Inr (t, Finite a, ty)"
    using assms(1-3) _ assms(4,5) by (rule schema_accepts) simp
  note up = assms(6) and anon = assms(7)
  have t': "transactions ?w' = transactions w @ [?row]"
    using post_root_inserts [OF b up, of new_reply] anon by simp
  have up': "db_up ?w'"
    using up by (simp add: post_root_up)
  have 1: "map (\<lambda>(n, v, opts). (n, v))
             (set_cookies (fst (transactionsRoutes POST_root request w))) =
             [(''sessionId'', shd (entropy w))]"
    using post_root_reply [OF b up] anon by simp
  have 2: "sent (fst (transactionsRoutes GET_root fetch ?w')) =
             Some (Transactions
                     (filter (\<lambda>row. session_id row = shd (entropy w)) (transactions w) @
                      [?row]))"
    using assms(10) up' t'
    by (simp add: preHandler_def checkSessionIdExists_def get_root_def where_select_def
          owned_by_def [abs_def] reply_defs del: transactionsRoutes.simps(4))
  have f: "find (matches (shd (stl (entropy w))) (shd (entropy w))) (transactions ?w') =
             Some ?row"
    unfolding t' using find_fresh [OF assms(9)] by (simp add: matches_def)
  have 3: "fst (transactionsRoutes GET_id fetch ?w') =
             \<lparr>statusCode = 200, sent = Some (Transaction ?row), set_cookies = []\<rparr>"
    using assms(8,10,11) up' f
    by (simp add: preHandler_def checkSessionIdExists_def get_id_def where_first_def
          getTransactionsParamsSchema_def reply_defs del: transactionsRoutes.simps(4))
  have 4: "wire (fst (transactionsRoutes GET_id fetch ?w')) =
             Some (JObj [(''transaction'',
                          JObj [(''id'', JStr (shd (stl (entropy w)))), (''title'', JStr t),
                                (''amount'', JNum (Finite (if ty = ''credit'' then a else - a))),
                                (''session_id'', JStr (shd (entropy w)))])])"
    unfolding 3 by (simp add: wire_defs)
  from 1 2 3 4 show ?thesis by blast
qed

theorem create_then_get_round_trip_witness:
  "body (anonymous rent) =
     JObj [(''title'', JStr ''Rent''), (''amount'', JNum (Finite 1200)),
           (''type'', JStr ''debit'')] \<and>
   db_up empty_store \<and>
   falsy (cookies (anonymous rent) ''sessionId'') \<and>
   uuid (shd (stl (entropy empty_store))) \<and>
   shd (stl (entropy empty_store)) \<notin> id' ` set (transactions empty_store) \<and>
   cookies (in_session u1 u2 JUndefined) ''sessionId'' = Some (shd (entropy empty_store)) \<and>
   params (in_session u1 u2 JUndefined) ''id'' = Some (shd (stl (entropy empty_store))) \<and>
   fst (transactionsRoutes GET_id (in_session u1 u2 JUndefined)
          (snd (transactionsRoutes POST_root (anonymous rent) empty_store))) =
     \<lparr>statusCode = 200,
      sent = Some (Transaction
                     \<lparr>id' = u2, title = ''Rent'', amount = Finite (- 1200), session_id = u1\<rparr>),
      set_cookies = []\<rparr> \<and>
   wire (fst (transactionsRoutes GET_id (in_session u1 u2 JUndefined)
                (snd (transactionsRoutes POST_root (anonymous rent) empty_store)))) =
     Some (JObj [(''transaction'',
                  JObj [(''id'', JStr u2), (''title'', JStr ''Rent''),
                        (''amount'', JNum (Finite (- 1200))), (''session_id'', JStr u1)])])"
proof -
  let ?fs = "[(''title'', JStr ''Rent''), (''amount'', JNum (Finite 1200)),
              (''type'', JStr ''debit'')]"
  have b: "body (anonymous rent) = JObj ?fs"
    by (simp add: anonymous_def rent_def)
  have m: "map_of ?fs ''title'' = Some (JStr ''Rent'')"
          "map_of ?fs ''amount'' = Some (JNum (Finite 1200))"
          "map_of ?fs ''type'' = Some (JStr ''debit'')"
    by simp_all
  have y: "''debit'' = ''credit'' \<or> ''debit'' = ''debit''"
    by simp
  have u: "db_up empty_store"
    by (simp add: empty_store_def)
  have f: "falsy (cookies (anonymous rent) ''sessionId'')"
    by (simp add: falsy_def anonymous_def)
  have e: "shd (entropy empty_store) = u1" "shd (stl (entropy empty_store)) = u2"
          "transactions empty_store = []"
    by (simp_all add: empty_store_def)
  have i: "uuid (shd (stl (entropy empty_store)))"
    by (simp add: e uuid_samples)
  have n: "shd (stl (entropy empty_store)) \<notin> id' ` set (transactions empty_store)"
    by (simp add: e)
  have c: "cookies (in_session u1 u2 JUndefined) ''sessionId'' = Some (shd (entropy empty_store))"
    by (simp add: e in_session_def)
  have p: "params (in_session u1 u2 JUndefined) ''id'' = Some (shd (stl (entropy empty_store)))"
    by (simp add: e in_session_def)
  from create_then_get_round_trip [OF b m y u f i n c p] b u f i n c p
  show ?thesis by (simp add: e wire_defs)
qed

subsection \<open>Session bootstrap on create\<close>

text \<open>
  Claim C9, as stated: a session cookie that is present is reused unconditionally and no
  new cookie is set. It does not hold for a cookie that is present with the empty
  string as its value: \<^verbatim>\<open>!sessionId\<close> is true for it, so a new identifier is minted,
  set as a cookie and stored with the row.
\<close>

theorem empty_cookie_counterexample:
  "cookies (in_session '''' u3 salary) ''sessionId'' = Some '''' \<and>
   map fst (set_cookies (fst (transactionsRoutes POST_root (in_session '''' u3 salary) empty_store)))
     = [''sessionId''] \<and>
   map session_id (transactions (snd (transactionsRoutes POST_root (in_session '''' u3 salary) empty_store)))
     = [u1]"
  by (simp add: handler_defs reply_defs store_defs in_session_def salary_def empty_store_def)

text \<open>
  Claim C9, amended. For a valid create on a reachable datastore: if the session cookie
  is absent or empty, a new identifier is minted, returned as the \<open>sessionId\<close> cookie
  and stored as the session of the inserted row; if the cookie is present and not empty
  it is reused with no further check and no cookie is set, so two creates presenting the
  same cookie insert two rows with that same session.
\<close>

theorem create_session_bootstrap:
  assumes "transactionBodySchema (body request) = Inr (t, a, ty)"
      and "db_up w"
  shows "(falsy (cookies request ''sessionId'') \<longrightarrow>
            map (\<lambda>(n, v, opts). (n, v))
              (set_cookies (fst (transactionsRoutes POST_root request w))) =
              [(''sessionId'', shd (entropy w))] \<and>
            (\<exists>row. transactions (snd (transactionsRoutes POST_root request w)) =
                      transactions w @ [row] \<and>
                    session_id row = shd (entropy w))) \<and>
         (cookies request ''sessionId'' = Some sid \<longrightarrow> sid \<noteq> [] \<longrightarrow>
            set_cookies (fst (transactionsRoutes POST_root request w)) = [] \<and>
            (\<exists>row. transactions (snd (transactionsRoutes POST_root request w)) =
                      transactions w @ [row] \<and>
                    session_id row = sid) \<and>
            (cookies request2 ''sessionId'' = Some sid \<longrightarrow>
             transactionBodySchema (body request2) = Inr (t2, a2, ty2) \<longrightarrow>
               set_cookies (fst (transactionsRoutes POST_root request2
                                   (snd (transactionsRoutes POST_root request w)))) = [] \<and>
               (\<exists>row row2.
                  transactions (snd (transactionsRoutes POST_root request2
                                       (snd (transactionsRoutes POST_root request w)))) =
                    transactions w @ [row, row2] \<and>
                  session_id row = sid \<and> session_id row2 = sid)))"
proof (intro conjI impI)
  assume f: "falsy (cookies request ''sessionId'')"
  from post_root_reply [OF assms] f
  show "map (\<lambda>(n, v, opts). (n, v))
          (set_cookies (fst (transactionsRoutes POST_root request w))) =
          [(''sessionId'', shd (entropy w))]"
    by simp
  from post_root_inserts [OF assms, of new_reply] f
  show "\<exists>row. transactions (snd (transactionsRoutes POST_root request w)) =
                 transactions w @ [row] \<and>
               session_id row = shd (entropy w)"
    by simp
next
  assume c: "cookies request ''sessionId'' = Some sid" and n: "sid \<noteq> []"
  then have f: "\<not> falsy (cookies request ''sessionId'')"
    by (simp add: falsy_def)
  from post_root_reply [OF assms] f
  show "set_cookies (fst (transactionsRoutes POST_root request w)) = []"
    by simp
  from post_root_inserts [OF assms, of new_reply] f c
  show "\<exists>row. transactions (snd (transactionsRoutes POST_root request w)) =
                 transactions w @ [row] \<and>
               session_id row = sid"
    by simp
next
  let ?w' = "snd (transactionsRoutes POST_root request w)"
  assume c: "cookies request ''sessionId'' = Some sid" and n: "sid \<noteq> []"
     and c2: "cookies request2 ''sessionId'' = Some sid"
     and b2: "transactionBodySchema (body request2) = Inr (t2, a2, ty2)"
  have f: "\<not> falsy (cookies request ''sessionId'')"
          "\<not> falsy (cookies request2 ''sessionId'')"
    using c c2 n by (simp_all add: falsy_def)
  have up: "db_up ?w'"
    using assms(2) by (simp add: post_root_up)
  from post_root_reply [OF b2 up] f
  show "set_cookies (fst (transactionsRoutes POST_root request2 ?w')) = []"
    by simp
  from post_root_inserts [OF b2 up, of new_reply] post_root_inserts [OF assms, of new_reply]
       f c c2
  show "\<exists>row row2.
          transactions (snd (transactionsRoutes POST_root request2 ?w')) =
            transactions w @ [row, row2] \<and>
          session_id row = sid \<and> session_id row2 = sid"
    by simp
qed

theorem create_session_bootstrap_witness:
  "(transactionBodySchema (body (anonymous salary)) = Inr (''Salary'', Finite 5000, ''credit'') \<and>
    db_up empty_store \<and>
    falsy (cookies (anonymous salary) ''sessionId'') \<and>
    map (\<lambda>(n, v, opts). (n, v))
      (set_cookies (fst (transactionsRoutes POST_root (anonymous salary) empty_store))) =
      [(''sessionId'', u1)] \<and>
    (\<exists>row. transactions (snd (transactionsRoutes POST_root (anonymous salary) empty_store)) =
              [row] \<and> session_id row = u1)) \<and>
   (transactionBodySchema (body (in_session u1 u1 rent)) = Inr (''Rent'', Finite 1200, ''debit'') \<and>
    db_up ledger \<and>
    cookies (in_session u1 u1 rent) ''sessionId'' = Some u1 \<and> u1 \<noteq> [] \<and>
    set_cookies (fst (transactionsRoutes POST_root (in_session u1 u1 rent) ledger)) = [] \<and>
    (\<exists>row row2.
       transactions (snd (transactionsRoutes POST_root (in_session u1 u1 rent)
                            (snd (transactionsRoutes POST_root (in_session u1 u1 rent) ledger)))) =
         [salary_row, rent_row, row, row2] \<and>
       session_id row = u1 \<and> session_id row2 = u1))"
proof -
  have b: "transactionBodySchema (body (anonymous salary)) = Inr (''Salary'', Finite 5000, ''credit'')"
    by (simp add: anonymous_def salary_def)
  have u: "db_up empty_store"
    by (simp add: empty_store_def)
  have f: "falsy (cookies (anonymous salary) ''sessionId'')"
    by (simp add: falsy_def anonymous_def)
  have e: "shd (entropy empty_store) = u1" "transactions empty_store = []"
    by (simp_all add: empty_store_def)
  have minted: "transactionBodySchema (body (anonymous salary)) = Inr (''Salary'', Finite 5000, ''credit'') \<and>
    db_up empty_store \<and>
    falsy (cookies (anonymous salary) ''sessionId'') \<and>
    map (\<lambda>(n, v, opts). (n, v))
      (set_cookies (fst (transactionsRoutes POST_root (anonymous salary) empty_store))) =
      [(''sessionId'', u1)] \<and>
    (\<exists>row. transactions (snd (transactionsRoutes POST_root (anonymous salary) empty_store)) =
              [row] \<and> session_id row = u1)"
    using create_session_bootstrap [OF b u] b u f e by simp
  have b': "transactionBodySchema (body (in_session u1 u1 rent)) = Inr (''Rent'', Finite 1200, ''debit'')"
    by (simp add: in_session_def rent_def)
  have u': "db_up ledger"
    by (simp add: ledger_def)
  have c: "cookies (in_session u1 u1 rent) ''sessionId'' = Some u1"
    by (simp add: in_session_def)
  have n: "u1 \<noteq> []"
    by (simp add: u1_def)
  have t: "transactions ledger = [salary_row, rent_row]"
    by (simp add: ledger_def)
  have reused: "transactionBodySchema (body (in_session u1 u1 rent)) = Inr (''Rent'', Finite 1200, ''debit'') \<and>
    db_up ledger \<and>
    cookies (in_session u1 u1 rent) ''sessionId'' = Some u1 \<and> u1 \<noteq> [] \<and>
    set_cookies (fst (transactionsRoutes POST_root (in_session u1 u1 rent) ledger)) = [] \<and>
    (\<exists>row row2.
       transactions (snd (transactionsRoutes POST_root (in_session u1 u1 rent)
                            (snd (transactionsRoutes POST_root (in_session u1 u1 rent) ledger)))) =
         [salary_row, rent_row, row, row2] \<and>
       session_id row = u1 \<and> session_id row2 = u1)"
    using create_session_bootstrap
            [OF b' u', where sid = u1 and ?request2.0 = "in_session u1 u1 rent"
               and ?t2.0 = "''Rent''" and ?a2.0 = "Finite 1200" and ?ty2.0 = "''debit''"] b' u' c n t
    by simp
  from minted reused show ?thesis by (rule conjI)
qed

subsection \<open>Isolation of sessions\<close>

text \<open>
  The ids of the table stay pairwise distinct as long as \<^verbatim>\<open>randomUUID\<close> does not
  repeat an id that is stored: only the create inserts, and the update leaves ids as
  they are.
\<close>

lemma filter_removeAll_other:
  "\<not> P x \<Longrightarrow> filter P (removeAll x xs) = filter P xs"
  by (induction xs) auto

lemma find_other_session:
  assumes "distinct (map id' rows)" and "x \<in> set rows" and "session_id x \<noteq> sid"
  shows "find (matches (id' x) sid) rows = None"
proof -
  have "inj_on id' (set rows)"
    using assms(1) by (simp add: distinct_map)
  then have "\<And>y. y \<in> set rows \<Longrightarrow> id' y = id' x \<Longrightarrow> y = x"
    using assms(2) by (auto dest: inj_onD)
  then show ?thesis
    using assms(3) by (auto simp: find_None_iff matches_def)
qed

lemma update_keeps_ids:
  "map (id' \<circ> (\<lambda>row. if P row then row\<lparr>title := t, amount := a\<rparr> else row)) rows =
     map id' rows"
  by (induction rows) auto

lemma ids_stay_distinct:
  assumes "distinct (map id' (transactions w))"
      and "r = POST_root \<Longrightarrow>
             (if falsy (cookies request ''sessionId'')
              then shd (stl (entropy w)) else shd (entropy w)) \<notin> id' ` set (transactions w)"
  shows "distinct (map id' (transactions (snd (transactionsRoutes r request w))))"
proof (cases r)
  case POST_root
  then show ?thesis
    using assms
    by (auto simp: post_root_def insert_row_def submit_def randomUUID_def
             split: sum.splits)
next
  case PUT_id
  then show ?thesis
    using assms(1)
    by (auto simp: preHandler_def checkSessionIdExists_def put_id_def where_first_def
               where_update_def submit_def update_keeps_ids
             split: sum.splits option.splits)
next
  case DELETE_id
  then show ?thesis
    using assms(1)
    by (auto simp: preHandler_def checkSessionIdExists_def delete_id_def where_first_def
               where_del_def submit_def distinct_map_filter
             split: sum.splits option.splits)
next
  case GET_root
  then show ?thesis
    using assms(1)
    by (auto simp: preHandler_def checkSessionIdExists_def get_root_def where_select_def
               submit_def
             split: option.splits)
next
  case GET_id
  then show ?thesis
    using assms(1)
    by (auto simp: preHandler_def checkSessionIdExists_def get_id_def where_first_def
               submit_def
             split: sum.splits option.splits)
next
  case GET_summary
  then show ?thesis
    using assms(1)
    by (auto simp: preHandler_def checkSessionIdExists_def get_summary_def where_sum_def
               submit_def
             split: option.splits)
qed

text \<open>
  Claim C4. Let a transaction be stored under session \<open>A\<close>, with the canonical UUID the
  create gave it as its id, in a table whose ids are pairwise distinct, and let \<open>B\<close> be
  another session. With \<open>B\<close>'s cookie, on a reachable datastore, the list does not
  contain the transaction, the summary is the one of the table without the transaction,
  and get-one for the transaction's id answers 404.
\<close>

theorem session_isolation:
  assumes "x \<in> set (transactions w)"
      and "session_id x = A"
      and "B \<noteq> A"
      and "cookies request ''sessionId'' = Some B"
      and "db_up w"
      and "distinct (map id' (transactions w))"
      and "uuid (id' x)"
      and "params request ''id'' = Some (id' x)"
  shows "(\<exists>rows. fst (transactionsRoutes GET_root request w) =
                    \<lparr>statusCode = 200, sent = Some (Transactions rows), set_cookies = []\<rparr> \<and>
                  x \<notin> set rows) \<and>
         fst (transactionsRoutes GET_summary request w) =
           fst (transactionsRoutes GET_summary request
                  (w\<lparr>transactions := removeAll x (transactions w)\<rparr>)) \<and>
         fst (transactionsRoutes GET_id request w) =
           \<lparr>statusCode = 404, sent = Some (Message ''Transaction not found''),
            set_cookies = []\<rparr>"
proof (intro conjI)
  have "fst (transactionsRoutes GET_root request w) =
          \<lparr>statusCode = 200,
           sent = Some (Transactions (filter (owned_by B) (transactions w))),
           set_cookies = []\<rparr>"
    using assms(4,5)
    by (simp add: preHandler_def checkSessionIdExists_def get_root_def where_select_def
          reply_defs)
  moreover have "x \<notin> set (filter (owned_by B) (transactions w))"
    using assms(2,3) by (simp add: owned_by_def)
  ultimately show "\<exists>rows. fst (transactionsRoutes GET_root request w) =
                    \<lparr>statusCode = 200, sent = Some (Transactions rows), set_cookies = []\<rparr> \<and>
                  x \<notin> set rows"
    by blast
next
  have "\<not> owned_by B x"
    using assms(2,3) by (simp add: owned_by_def)
  then have "filter (owned_by B) (removeAll x (transactions w)) =
               filter (owned_by B) (transactions w)"
    by (rule filter_removeAll_other)
  then show "fst (transactionsRoutes GET_summary request w) =
           fst (transactionsRoutes GET_summary request
                  (w\<lparr>transactions := removeAll x (transactions w)\<rparr>))"
    using assms(4,5)
    by (simp add: preHandler_def checkSessionIdExists_def get_summary_def where_sum_def
          reply_defs)
next
  have "find (matches (id' x) B) (transactions w) = None"
    using assms(1,2,3,6) by (intro find_other_session) auto
  then show "fst (transactionsRoutes GET_id request w) =
           \<lparr>statusCode = 404, sent = Some (Message ''Transaction not found''),
            set_cookies = []\<rparr>"
    using assms(4,5,7,8)
    by (simp add: preHandler_def checkSessionIdExists_def get_id_def where_first_def
          getTransactionsParamsSchema_def reply_defs)
qed

theorem session_isolation_witness:
  "salary_row \<in> set (transactions ledger) \<and> session_id salary_row = u1 \<and> u4 \<noteq> u1 \<and>
   cookies (in_session u4 u2 JUndefined) ''sessionId'' = Some u4 \<and> db_up ledger \<and>
   distinct (map id' (transactions ledger)) \<and> uuid (id' salary_row) \<and>
   params (in_session u4 u2 JUndefined) ''id'' = Some (id' salary_row) \<and>
   statusCode (fst (transactionsRoutes GET_id (in_session u4 u2 JUndefined) ledger)) = 404 \<and>
   (\<exists>rows. sent (fst (transactionsRoutes GET_root (in_session u4 u2 JUndefined) ledger)) =
              Some (Transactions rows) \<and> salary_row \<notin> set rows)"
proof -
  have m: "salary_row \<in> set (transactions ledger)"
    by (simp add: ledger_def)
  have s: "session_id salary_row = u1" and i: "id' salary_row = u2"
    by (simp_all add: salary_row_def)
  have d: "u4 \<noteq> u1"
    by (simp add: u1_def u4_def)
  have c: "cookies (in_session u4 u2 JUndefined) ''sessionId'' = Some u4"
    by (simp add: in_session_def)
  have u: "db_up ledger"
    by (simp add: ledger_def)
  have t: "distinct (map id' (transactions ledger))"
    by (simp add: ledger_def salary_row_def rent_row_def u2_def u3_def)
  have v: "uuid (id' salary_row)"
    by (simp add: i uuid_samples)
  have p: "params (in_session u4 u2 JUndefined) ''id'' = Some (id' salary_row)"
    by (simp add: i in_session_def)
  from session_isolation [OF m s d c u t v p] m s d c u t v p
  show ?thesis by auto
qed

subsection \<open>The summary\<close>

text \<open>
  With a session cookie and a reachable datastore the summary answers 200 with the
  aggregate of the amounts of the session's rows, as the datastore returns it: \<open>null\<close>
  exactly when the session has no row. How the aggregate over rows relates to the
  mathematical sum of the amounts is the floating-point arithmetic of the engine.
\<close>

lemma sql_sum_null: "sql_sum xs = SQL_NULL \<longleftrightarrow> xs = []"
  by (cases xs) simp_all

lemma summary_reply:
  assumes "cookies request ''sessionId'' = Some sid"
      and "db_up w"
  shows "fst (transactionsRoutes GET_summary request w) =
           \<lparr>statusCode = 200,
            sent = Some (Summary (sql_sum (map amount (filter (\<lambda>row. session_id row = sid)
                                                         (transactions w))))),
            set_cookies = []\<rparr>"
  using assms
  by (simp add: preHandler_def checkSessionIdExists_def get_summary_def where_sum_def
        owned_by_def [abs_def] reply_defs)

end
